theory Spec2Isabelle
  imports Complex_Main "HOL-Library.Multiset"
begin

section \<open>Data model\<close>

text \<open>
  The projection engine of \<^verbatim>\<open>app.py\<close>: \<^verbatim>\<open>apply_liquidity_events\<close>,
  \<^verbatim>\<open>build_timeline\<close>, \<^verbatim>\<open>run_monte_carlo\<close> and \<^verbatim>\<open>solve_safe_withdrawal_rate\<close>.

  Python's \<^verbatim>\<open>float\<close> is modelled by \<^typ>\<open>real\<close>: every sum, product and quotient
  is the exact one, with no rounding, overflow or NaN. Python's \<^verbatim>\<open>int\<close> is \<^typ>\<open>int\<close>.
  Where a property depends on the rounding, the float operations are written out: the
  sums of the cash-event aggregator have a second embedding with the rounding of every
  operation explicit (\<open>apply_liquidity_events_fl\<close>, with \<open>binary64\<close> the rounding
  of IEEE 754 doubles). Exceptions are values of \<open>py_error\<close>; a function that can
  raise returns \<open>py_error + 'a\<close>.
\<close>

datatype py_error = IndexError | ZeroDivisionError | ValueError

text \<open>The dataclass \<^verbatim>\<open>LiquidityEvent\<close>.\<close>

record LiquidityEvent =
  type :: string
  label :: string
  start_age :: int
  end_age :: int
  amount :: real
  recurrence :: string
  enabled :: bool
  taxable :: bool
  tax_rate :: real

text \<open>The dataclass \<^verbatim>\<open>TimelineRow\<close>: one simulated year.\<close>

record TimelineRow =
  age :: int
  start_balance_nominal :: real
  contributions :: real
  liquidity_net :: real
  withdrawals :: real
  fees :: real
  taxes :: real
  growth :: real
  end_balance_nominal :: real
  cpi_index :: real
  end_balance_real :: real

text \<open>
  The dataclass \<^verbatim>\<open>Scenario\<close>. Its field \<^verbatim>\<open>liquidity_events\<close> holds the events as
  dictionaries; the engine never reads it (the event list is a separate argument).
\<close>

record Scenario =
  name :: string
  current_age :: int
  retirement_age :: int
  end_age :: int
  current_balance :: real
  contrib_amount :: real
  contrib_cadence :: string
  nominal_return_pct :: real
  return_stdev_pct :: real
  inflation_pct :: real
  fee_pct :: real
  withdrawal_method :: string
  withdrawal_pct :: real
  withdrawal_real_amount :: real
  withdrawal_frequency :: string
  liquidity_events :: "LiquidityEvent list"
  enable_mc :: bool
  mc_runs :: int
  enable_taxes :: bool
  effective_tax_rate_pct :: real
  inflation_enabled :: bool

text \<open>
  The dictionary \<^verbatim>\<open>metrics\<close> returned by \<^verbatim>\<open>build_timeline\<close>; its last four
  entries are always \<^verbatim>\<open>None\<close> there.
\<close>

record Metrics =
  terminal_nominal :: real
  terminal_real :: real
  first_shortfall_age :: "int option"
  probability_no_shortfall :: "real option"
  median_terminal :: "real option"
  p10_terminal :: "real option"
  p90_terminal :: "real option"


section \<open>\<^verbatim>\<open>apply_liquidity_events\<close>\<close>

text \<open>
  The accumulators \<^verbatim>\<open>net\<close>, \<^verbatim>\<open>labels\<close> and \<^verbatim>\<open>event_taxes\<close> of the loop, and the
  body of the loop for one event.
\<close>

type_synonym event_acc = "real \<times> string list \<times> real"

fun event_body :: "int \<Rightarrow> LiquidityEvent \<Rightarrow> event_acc \<Rightarrow> event_acc" where
  "event_body a event (net, labels, event_taxes) =
     (if \<not> enabled event then (net, labels, event_taxes)
      else if start_age event \<le> a \<and> a \<le> LiquidityEvent.end_age event then
        (if recurrence event = ''One-time'' then
           (if a = start_age event then
              (let amt = amount event in
                 (net + amt, labels @ [label event],
                  if taxable event \<and> amt > 0
                  then event_taxes + amt * (tax_rate event / 100)
                  else event_taxes))
            else (net, labels, event_taxes))
         else
           (let amt = (if recurrence event = ''Monthly''
                       then amount event * 12 else amount event) in
              (net + amt, labels @ [label event],
               if taxable event \<and> amt > 0
               then event_taxes + amt * (tax_rate event / 100)
               else event_taxes)))
      else (net, labels, event_taxes))"

fun events_loop :: "int \<Rightarrow> LiquidityEvent list \<Rightarrow> event_acc \<Rightarrow> event_acc" where
  "events_loop a [] acc = acc"
| "events_loop a (event # events) acc = events_loop a events (event_body a event acc)"

definition apply_liquidity_events ::
  "int \<Rightarrow> LiquidityEvent list \<Rightarrow> real \<times> string list \<times> real" where
  "apply_liquidity_events a events = events_loop a events (0, [], 0)"


section \<open>\<^verbatim>\<open>build_timeline\<close>\<close>

text \<open>
  The blocks of the loop body. Contributions, fees and taxes are written the same way
  in \<^verbatim>\<open>build_timeline\<close> and in \<^verbatim>\<open>run_monte_carlo\<close>; the withdrawal block differs
  between the two and has one definition for each.
\<close>

definition year_contributions :: "Scenario \<Rightarrow> int \<Rightarrow> real" where
  "year_contributions scenario a =
     (if a < retirement_age scenario then
        (if contrib_cadence scenario = ''Monthly''
         then contrib_amount scenario * 12 else contrib_amount scenario)
      else 0)"

definition timeline_withdrawals :: "Scenario \<Rightarrow> int \<Rightarrow> real \<Rightarrow> real \<Rightarrow> real" where
  "timeline_withdrawals scenario a prior_year_end_balance cpi =
     (if a \<ge> retirement_age scenario then
        (if withdrawal_method scenario = ''Fixed % of prior-year end balance'' then
           prior_year_end_balance * (withdrawal_pct scenario / 100)
         else
           (let w = (if inflation_enabled scenario
                     then withdrawal_real_amount scenario * cpi
                     else withdrawal_real_amount scenario)
            in if withdrawal_frequency scenario = ''Monthly'' then w * 12 else w))
      else 0)"

definition year_taxes :: "Scenario \<Rightarrow> real \<Rightarrow> real \<Rightarrow> real" where
  "year_taxes scenario liquidity_event_taxes wd =
     (let tax_rate = (if enable_taxes scenario
                      then effective_tax_rate_pct scenario / 100 else 0)
      in if enable_taxes scenario
         then liquidity_event_taxes + wd * tax_rate
         else liquidity_event_taxes)"

text \<open>
  The variables carried from one age to the next: \<^verbatim>\<open>balance_nominal\<close>,
  \<^verbatim>\<open>cpi_index\<close>, \<^verbatim>\<open>prior_year_end_balance\<close> and \<^verbatim>\<open>first_shortfall_age\<close>.
  One pass of the loop body returns the row it appends and the updated variables.
  The quotient \<^verbatim>\<open>end_balance_nominal / cpi_index\<close> of two Python floats raises
  \<^verbatim>\<open>ZeroDivisionError\<close> when the index is zero. The index here is an exact real: it
  is zero only when a factor \<open>1 + inflation_pct / 100\<close> is zero. The float index can
  also underflow to zero, after many years at a negative inflation rate between -100
  and 0, and the source raises there too. With \<open>inflation_pct \<ge> 0\<close> the index only
  grows from 1.0, as a real and as a float, and the quotient never raises; the results
  below that promise a timeline assume \<open>inflation_pct \<ge> 0\<close>.
\<close>

type_synonym timeline_vars = "real \<times> real \<times> real \<times> int option"

definition timeline_year ::
  "Scenario \<Rightarrow> LiquidityEvent list \<Rightarrow> int \<Rightarrow> timeline_vars
     \<Rightarrow> py_error + (TimelineRow \<times> timeline_vars)" where
  "timeline_year scenario events a vars =
     (case vars of (balance_nominal, cpi, prior_year_end_balance, first_shortfall) \<Rightarrow>
      (case apply_liquidity_events a events of (liq_net, _, liquidity_event_taxes) \<Rightarrow>
        let start_balance = balance_nominal;
            contribs = year_contributions scenario a;
            wd = timeline_withdrawals scenario a prior_year_end_balance cpi;
            fee = start_balance * (fee_pct scenario / 100);
            tax = year_taxes scenario liquidity_event_taxes wd;
            balance_after_cashflows = start_balance + contribs + liq_net - wd - fee - tax;
            grow = balance_after_cashflows * (nominal_return_pct scenario / 100);
            end_nominal = balance_after_cashflows + grow;
            cpi1 = (if inflation_enabled scenario \<and> a = current_age scenario then 1 else cpi)
        in if inflation_enabled scenario \<and> cpi1 = 0 then Inl ZeroDivisionError
           else
             let end_real = (if inflation_enabled scenario
                             then end_nominal / cpi1 else end_nominal);
                 row = \<lparr> age = a, start_balance_nominal = start_balance,
                         contributions = contribs, liquidity_net = liq_net,
                         withdrawals = wd, fees = fee, taxes = tax, growth = grow,
                         end_balance_nominal = end_nominal, cpi_index = cpi1,
                         end_balance_real = end_real \<rparr>;
                 first_shortfall' = (if first_shortfall = None \<and> end_nominal < 0
                                     then Some a else first_shortfall);
                 cpi2 = (if inflation_enabled scenario \<and> a \<noteq> current_age scenario
                         then cpi1 * (1 + inflation_pct scenario / 100) else cpi1)
             in Inr (row, (end_nominal, cpi2, end_nominal, first_shortfall'))))"

text \<open>
  The loop \<^verbatim>\<open>for age in range(scenario.current_age, scenario.end_age + 1)\<close>, over
  the list of its ages; the rows come out in the order they are appended.
\<close>

fun timeline_loop ::
  "Scenario \<Rightarrow> LiquidityEvent list \<Rightarrow> int list \<Rightarrow> timeline_vars
     \<Rightarrow> py_error + (TimelineRow list \<times> int option)" where
  "timeline_loop scenario events [] vars = Inr ([], snd (snd (snd vars)))"
| "timeline_loop scenario events (a # ages) vars =
     (case timeline_year scenario events a vars of
        Inl e \<Rightarrow> Inl e
      | Inr (row, vars') \<Rightarrow>
          (case timeline_loop scenario events ages vars' of
             Inl e \<Rightarrow> Inl e
           | Inr (rows, first_shortfall) \<Rightarrow> Inr (row # rows, first_shortfall)))"

text \<open>
  \<^verbatim>\<open>build_timeline\<close> returns the rows (the data frame, one row per list element) and
  the metrics. With no rows the data frame is empty and \<^verbatim>\<open>df.iloc[-1]\<close> raises
  \<^verbatim>\<open>IndexError\<close>. The argument \<^verbatim>\<open>show_real\<close> is never read and is left out.
\<close>

definition build_timeline ::
  "Scenario \<Rightarrow> LiquidityEvent list \<Rightarrow> py_error + (TimelineRow list \<times> Metrics)" where
  "build_timeline scenario events =
     (case timeline_loop scenario events [current_age scenario..end_age scenario]
             (current_balance scenario, 1, current_balance scenario, None) of
        Inl e \<Rightarrow> Inl e
      | Inr (rows, first_shortfall) \<Rightarrow>
          (if rows = [] then Inl IndexError
           else Inr (rows,
                  \<lparr> terminal_nominal = end_balance_nominal (last rows),
                    terminal_real = end_balance_real (last rows),
                    first_shortfall_age = first_shortfall,
                    probability_no_shortfall = None, median_terminal = None,
                    p10_terminal = None, p90_terminal = None \<rparr>)))"



text \<open>
  The column \<^verbatim>\<open>df[col]\<close> of the data frame that \<^verbatim>\<open>build_timeline\<close> returns.
\<close>

definition column ::
  "(TimelineRow \<Rightarrow> 'a) \<Rightarrow> py_error + (TimelineRow list \<times> Metrics) \<Rightarrow> py_error + 'a list" where
  "column f res = (case res of Inl e \<Rightarrow> Inl e | Inr (rows, m) \<Rightarrow> Inr (map f rows))"


section \<open>\<^verbatim>\<open>run_monte_carlo\<close>\<close>

text \<open>
  The drawn returns are \<^verbatim>\<open>numpy.float64\<close> values, so from the first year on the
  balances of a trial are too. Unlike Python's own floats, the quotient
  \<^verbatim>\<open>end_balance_nominal / cpi_index\<close> of a trial does not raise when the index is zero:
  it is an infinity or NaN.
\<close>

datatype npfloat = Finite real | PosInf | NegInf | NaN

definition np_divide :: "real \<Rightarrow> real \<Rightarrow> npfloat" where
  "np_divide x y =
     (if y \<noteq> 0 then Finite (x / y)
      else if x > 0 then PosInf else if x < 0 then NegInf else NaN)"

text \<open>
  The functions of numpy that \<^verbatim>\<open>run_monte_carlo\<close> calls are parameters of the model.
  \<open>'g\<close> is the state of numpy's global generator: \<^verbatim>\<open>np.random.seed\<close> replaces it
  (or raises), \<^verbatim>\<open>np.random.normal(loc, scale, size=(rows, cols))\<close> reads and advances
  it and returns an array, given here by its indexing function (or raises).
  \<open>'f\<close> is what the statistics return for a one-dimensional array, \<open>'p\<close> what
  \<^verbatim>\<open>np.percentile(..., axis=0)\<close> returns for the array of paths.
\<close>

record ('g, 'f, 'p) numpy =
  np_random_seed :: "int \<Rightarrow> py_error + 'g"
  np_random_normal ::
    "'g \<Rightarrow> real \<Rightarrow> real \<Rightarrow> int \<Rightarrow> int \<Rightarrow> (py_error + (nat \<Rightarrow> nat \<Rightarrow> real)) \<times> 'g"
  np_mean :: "bool list \<Rightarrow> 'f"
  np_median :: "real list \<Rightarrow> 'f"
  np_percentile :: "real list \<Rightarrow> real \<Rightarrow> 'f"
  np_percentile_axis0 :: "npfloat list list \<Rightarrow> real \<Rightarrow> 'p"

text \<open>The dictionary that \<^verbatim>\<open>run_monte_carlo\<close> returns.\<close>

record ('f, 'p) MonteCarlo =
  probability_no_shortfall :: 'f
  median_terminal :: 'f
  p10_terminal :: 'f
  p90_terminal :: 'f
  p10_path :: 'p
  p50_path :: 'p
  p90_path :: 'p

text \<open>
  The withdrawal block of the trial loop: under the percentage method it multiplies by
  12 for monthly frequency, and under the fixed amount it always multiplies by the
  price index (it does not read \<^verbatim>\<open>inflation_enabled\<close>).
\<close>

definition mc_withdrawals :: "Scenario \<Rightarrow> int \<Rightarrow> real \<Rightarrow> real \<Rightarrow> real" where
  "mc_withdrawals scenario a prior_year_end_balance cpi =
     (if a \<ge> retirement_age scenario then
        (if withdrawal_method scenario = ''Fixed % of prior-year end balance'' then
           (let w = prior_year_end_balance * (withdrawal_pct scenario / 100)
            in if withdrawal_frequency scenario = ''Monthly'' then w * 12 else w)
         else
           (let w = withdrawal_real_amount scenario * cpi
            in if withdrawal_frequency scenario = ''Monthly'' then w * 12 else w))
      else 0)"

text \<open>
  The variables of one trial: \<^verbatim>\<open>balance_nominal\<close>, \<^verbatim>\<open>cpi_index\<close>,
  \<^verbatim>\<open>prior_year_end_balance\<close> and \<^verbatim>\<open>min_balance\<close>. One pass of the inner loop
  body, for the age \<open>a\<close> and the drawn return \<open>ret\<close>, gives the entry appended to
  \<^verbatim>\<open>path\<close> and the updated variables.
\<close>

type_synonym mc_vars = "real \<times> real \<times> real \<times> real"

definition mc_year ::
  "Scenario \<Rightarrow> LiquidityEvent list \<Rightarrow> int \<Rightarrow> real \<Rightarrow> mc_vars \<Rightarrow> npfloat \<times> mc_vars" where
  "mc_year scenario events a ret vars =
     (case vars of (balance_nominal, cpi, prior_year_end_balance, min_balance) \<Rightarrow>
      (case apply_liquidity_events a events of (liq_net, _, liquidity_event_taxes) \<Rightarrow>
        let start_balance = balance_nominal;
            contribs = year_contributions scenario a;
            wd = mc_withdrawals scenario a prior_year_end_balance cpi;
            fee = start_balance * (fee_pct scenario / 100);
            tax = year_taxes scenario liquidity_event_taxes wd;
            balance_after_cashflows = start_balance + contribs + liq_net - wd - fee - tax;
            grow = balance_after_cashflows * ret;
            end_nominal = balance_after_cashflows + grow
        in (np_divide end_nominal cpi,
            (end_nominal, cpi * (1 + inflation_pct scenario / 100), end_nominal,
             min min_balance end_nominal))))"

text \<open>
  The inner loop \<^verbatim>\<open>for year_idx, age in enumerate(range(current_age, end_age + 1))\<close>
  over the pairs \<open>(year_idx, age)\<close>, reading \<^verbatim>\<open>returns[run_idx, year_idx]\<close> from the
  row \<open>returns_row\<close> of the trial.
\<close>

fun mc_trial_loop ::
  "Scenario \<Rightarrow> LiquidityEvent list \<Rightarrow> (nat \<Rightarrow> real) \<Rightarrow> (nat \<times> int) list \<Rightarrow> mc_vars
     \<Rightarrow> npfloat list \<times> mc_vars" where
  "mc_trial_loop scenario events returns_row [] vars = ([], vars)"
| "mc_trial_loop scenario events returns_row ((year_idx, a) # rest) vars =
     (case mc_year scenario events a (returns_row year_idx) vars of (entry, vars') \<Rightarrow>
        (case mc_trial_loop scenario events returns_row rest vars' of (path, vars'') \<Rightarrow>
           (entry # path, vars'')))"

text \<open>
  One pass of the outer loop: what the trial appends to \<^verbatim>\<open>terminal_values\<close>,
  \<^verbatim>\<open>min_balances\<close> and \<^verbatim>\<open>all_paths\<close>.
\<close>

definition mc_trial ::
  "Scenario \<Rightarrow> LiquidityEvent list \<Rightarrow> (nat \<Rightarrow> real) \<Rightarrow> real \<times> real \<times> npfloat list" where
  "mc_trial scenario events returns_row =
     (case mc_trial_loop scenario events returns_row
             (enumerate 0 [current_age scenario..end_age scenario])
             (current_balance scenario, 1, current_balance scenario, current_balance scenario) of
        (path, (balance_nominal, cpi, prior_year_end_balance, min_balance)) \<Rightarrow>
          (balance_nominal, min_balance, path))"

text \<open>
  \<^verbatim>\<open>run_monte_carlo\<close> takes the state of the global generator as it finds it and
  returns its result with the state it leaves.
\<close>

definition run_monte_carlo ::
  "('g, 'f, 'p) numpy \<Rightarrow> 'g \<Rightarrow> Scenario \<Rightarrow> LiquidityEvent list \<Rightarrow> int \<Rightarrow> int
     \<Rightarrow> (py_error + ('f, 'p) MonteCarlo) \<times> 'g" where
  "run_monte_carlo np g scenario events runs seed =
     (case np_random_seed np seed of
        Inl e \<Rightarrow> (Inl e, g)
      | Inr g1 \<Rightarrow>
          (let mean_return = nominal_return_pct scenario / 100;
               stdev_return = return_stdev_pct scenario / 100;
               num_years = end_age scenario - current_age scenario + 1
           in case np_random_normal np g1 mean_return stdev_return runs num_years of
                (Inl e, g2) \<Rightarrow> (Inl e, g2)
              | (Inr returns, g2) \<Rightarrow>
                  (let trials = map (\<lambda>run_idx. mc_trial scenario events (returns run_idx))
                                  [0..<nat runs];
                       terminal_values = map fst trials;
                       min_balances = map (\<lambda>t. fst (snd t)) trials;
                       all_paths = map (\<lambda>t. snd (snd t)) trials
                   in (Inr \<lparr> probability_no_shortfall =
                               np_mean np (map (\<lambda>m. m \<ge> 0) min_balances),
                             median_terminal = np_median np terminal_values,
                             p10_terminal = np_percentile np terminal_values 10,
                             p90_terminal = np_percentile np terminal_values 90,
                             p10_path = np_percentile_axis0 np all_paths 10,
                             p50_path = np_percentile_axis0 np all_paths 50,
                             p90_path = np_percentile_axis0 np all_paths 90 \<rparr>,
                       g2))))"


section \<open>\<^verbatim>\<open>solve_safe_withdrawal_rate\<close>\<close>

text \<open>
  \<^verbatim>\<open>df['end_balance_nominal'].min()\<close>: the least entry of the column, NaN (here
  \<open>None\<close>) for an empty one; \<^verbatim>\<open>min_balance >= 0\<close> is false for NaN.
\<close>

definition series_min :: "real list \<Rightarrow> real option" where
  "series_min xs = (case xs of [] \<Rightarrow> None | x # rest \<Rightarrow> Some (fold min rest x))"

definition ge_zero :: "real option \<Rightarrow> bool" where
  "ge_zero m = (case m of None \<Rightarrow> False | Some v \<Rightarrow> v \<ge> 0)"

text \<open>
  An entry of \<^verbatim>\<open>debug_info\<close> records the tested rate \<^verbatim>\<open>mid\<close>, the minimum balance
  and whether the rate was solvent (the source formats the three into a string). The
  variables of the search are \<^verbatim>\<open>low\<close>, \<^verbatim>\<open>high\<close>, \<^verbatim>\<open>best_rate\<close> and
  \<^verbatim>\<open>debug_info\<close>; the fourth argument counts the iterations that
  \<^verbatim>\<open>range(max_iterations)\<close> has left.
\<close>

type_synonym debug_entry = "real \<times> real option \<times> bool"

type_synonym swr_vars = "real \<times> real \<times> real \<times> debug_entry list"

fun swr_loop ::
  "Scenario \<Rightarrow> LiquidityEvent list \<Rightarrow> real \<Rightarrow> nat \<Rightarrow> swr_vars \<Rightarrow> py_error + swr_vars" where
  "swr_loop scenario events tolerance 0 vars = Inr vars"
| "swr_loop scenario events tolerance (Suc n) vars =
     (case vars of (low, high, best_rate, debug_info) \<Rightarrow>
        (let mid = (low + high) / 2;
             test_scenario = scenario\<lparr>withdrawal_pct := mid\<rparr>
         in case column end_balance_nominal (build_timeline test_scenario events) of
              Inl e \<Rightarrow> Inl e
            | Inr col \<Rightarrow>
                (let min_balance = series_min col;
                     vars' = (if ge_zero min_balance
                              then (mid, high, mid,
                                    debug_info @ [(mid, min_balance, True)])
                              else (low, mid, best_rate,
                                    debug_info @ [(mid, min_balance, False)]))
                 in if fst (snd vars') - fst vars' < tolerance then Inr vars'
                    else swr_loop scenario events tolerance n vars')))"

text \<open>
  The part of Streamlit's session state that the solver writes: the key
  \<^verbatim>\<open>swr_debug\<close>, absent (\<open>None\<close>) or holding a list.
\<close>

record session_state =
  swr_debug :: "debug_entry list option"

definition solve_safe_withdrawal_rate ::
  "session_state \<Rightarrow> Scenario \<Rightarrow> LiquidityEvent list \<Rightarrow> real \<Rightarrow> int
     \<Rightarrow> py_error + (real option \<times> session_state)" where
  "solve_safe_withdrawal_rate ss scenario events tolerance max_iterations =
     (if withdrawal_method scenario \<noteq> ''Fixed % of prior-year end balance''
      then Inr (None, ss)
      else
        (case swr_loop scenario events tolerance (nat max_iterations) (0, 20, 0, []) of
           Inl e \<Rightarrow> Inl e
         | Inr (low, high, best_rate, debug_info) \<Rightarrow>
             Inr (Some best_rate, ss\<lparr>swr_debug := Some debug_info\<rparr>)))"


section \<open>The sums of the aggregator as floats\<close>







section \<open>The per-event reading of the aggregator\<close>

text \<open>
  The contract of the aggregator, event by event, in the words of the specification: an
  event applies at an age when it is enabled, the age lies in its closed range and, for
  a one-time event, the age is its start age; its annualized amount is twelve times the
  amount for a monthly event; its tax is charged when it is taxable and the annualized
  amount is strictly positive.
\<close>

definition spec_event_applies :: "int \<Rightarrow> LiquidityEvent \<Rightarrow> bool" where
  "spec_event_applies a e =
     (enabled e \<and> start_age e \<le> a \<and> a \<le> LiquidityEvent.end_age e \<and>
      (if recurrence e = ''One-time'' then a = start_age e else True))"

definition spec_annual_amount :: "LiquidityEvent \<Rightarrow> real" where
  "spec_annual_amount e = (if recurrence e = ''Monthly'' then amount e * 12 else amount e)"

definition spec_event_net :: "int \<Rightarrow> LiquidityEvent \<Rightarrow> real" where
  "spec_event_net a e = (if spec_event_applies a e then spec_annual_amount e else 0)"

definition spec_event_tax :: "int \<Rightarrow> LiquidityEvent \<Rightarrow> real" where
  "spec_event_tax a e =
     (if spec_event_applies a e \<and> taxable e \<and> spec_annual_amount e > 0
      then spec_annual_amount e * tax_rate e / 100 else 0)"

text \<open>Events used as concrete inputs below.\<close>

definition house_sale :: LiquidityEvent where
  "house_sale = \<lparr> type = ''Credit'', label = ''House sale'', start_age = 66,
     LiquidityEvent.end_age = 66, amount = 1000, recurrence = ''One-time'',
     enabled = True, taxable = True, tax_rate = 20 \<rparr>"

definition rent :: LiquidityEvent where
  "rent = \<lparr> type = ''Debit'', label = ''Rent'', start_age = 60,
     LiquidityEvent.end_age = 70, amount = - 100, recurrence = ''Monthly'',
     enabled = True, taxable = True, tax_rate = 20 \<rparr>"

definition pension :: LiquidityEvent where
  "pension = \<lparr> type = ''Credit'', label = ''Pension'', start_age = 60,
     LiquidityEvent.end_age = 90, amount = 50, recurrence = ''Annual'',
     enabled = True, taxable = True, tax_rate = 10 \<rparr>"

definition disabled_gift :: LiquidityEvent where
  "disabled_gift = \<lparr> type = ''Credit'', label = ''Gift'', start_age = 60,
     LiquidityEvent.end_age = 70, amount = 500, recurrence = ''Annual'',
     enabled = False, taxable = True, tax_rate = 50 \<rparr>"



section \<open>Feeding a rate back into the timeline\<close>

text \<open>
  What the claims about the solver speak of: the minimum nominal end balance across
  all rows of the timeline built for the scenario with \<open>rate\<close> substituted as
  \<open>withdrawal_pct\<close>; a rate is solvent when that minimum is at least 0 and insolvent
  when it is negative. \<open>trace_entry_ok\<close> says that an entry of the search trace
  records what the timeline gives for its rate, that a rate recorded as solvent lies at
  or below \<open>lo\<close>, and that one recorded as not solvent lies at or above \<open>hi\<close>.
  \<open>solver_rate\<close> is the value the solver returns, without the session state.
\<close>

definition min_balance_at ::
  "Scenario \<Rightarrow> LiquidityEvent list \<Rightarrow> real \<Rightarrow> py_error + real option" where
  "min_balance_at sc ev rate =
     (case column end_balance_nominal (build_timeline (sc\<lparr>withdrawal_pct := rate\<rparr>) ev) of
        Inl e \<Rightarrow> Inl e
      | Inr col \<Rightarrow> Inr (series_min col))"

definition solvent_at :: "Scenario \<Rightarrow> LiquidityEvent list \<Rightarrow> real \<Rightarrow> bool" where
  "solvent_at sc ev rate =
     (case min_balance_at sc ev rate of Inr (Some v) \<Rightarrow> v \<ge> 0 | _ \<Rightarrow> False)"

definition insolvent_at :: "Scenario \<Rightarrow> LiquidityEvent list \<Rightarrow> real \<Rightarrow> bool" where
  "insolvent_at sc ev rate =
     (case min_balance_at sc ev rate of Inr (Some v) \<Rightarrow> v < 0 | _ \<Rightarrow> False)"

definition trace_entry_ok ::
  "Scenario \<Rightarrow> LiquidityEvent list \<Rightarrow> real \<Rightarrow> real \<Rightarrow> debug_entry \<Rightarrow> bool" where
  "trace_entry_ok sc ev lo hi e \<longleftrightarrow>
     min_balance_at sc ev (fst e) = Inr (fst (snd e)) \<and> snd (snd e) = ge_zero (fst (snd e))
     \<and> (if snd (snd e) then fst e \<le> lo else hi \<le> fst e)"

definition solver_rate ::
  "py_error + (real option \<times> session_state) \<Rightarrow> py_error + real option" where
  "solver_rate res = (case res of Inl e \<Rightarrow> Inl e | Inr (rate, ss) \<Rightarrow> Inr rate)"




section \<open>Concrete scenarios\<close>

text \<open>
  Scenarios used as concrete inputs below. \<open>example_saver\<close> is one year before
  retirement and uses the percentage method with monthly frequency; \<open>example_rows\<close>
  and \<open>example_metrics\<close> are what \<open>build_timeline\<close> returns for it with the event
  \<open>pension\<close>.
\<close>

definition example_saver :: Scenario where
  "example_saver = \<lparr> name = ''saver'', current_age = 64, retirement_age = 65, end_age = 66,
     current_balance = 1000, contrib_amount = 10, contrib_cadence = ''Monthly'',
     nominal_return_pct = 10, return_stdev_pct = 0, inflation_pct = 3, fee_pct = 1,
     withdrawal_method = ''Fixed % of prior-year end balance'', withdrawal_pct = 5,
     withdrawal_real_amount = 100, withdrawal_frequency = ''Monthly'',
     liquidity_events = [], enable_mc = True, mc_runs = 1000, enable_taxes = True,
     effective_tax_rate_pct = 20, inflation_enabled = True \<rparr>"

definition example_rows :: "TimelineRow list" where
  "example_rows =
     [\<lparr>age = 64, start_balance_nominal = 1000, contributions = 120,
        liquidity_net = 50, withdrawals = 0, fees = 10, taxes = 5,
        growth = 231 / 2, end_balance_nominal = 2541 / 2, cpi_index = 1,
        end_balance_real = 2541 / 2\<rparr>,
      \<lparr>age = 65, start_balance_nominal = 2541 / 2, contributions = 0,
        liquidity_net = 50, withdrawals = 2541 / 40, fees = 2541 / 200,
        taxes = 3541 / 200, growth = 245313 / 2000,
        end_balance_nominal = 2698443 / 2000, cpi_index = 1,
        end_balance_real = 2698443 / 2000\<rparr>,
      \<lparr>age = 66, start_balance_nominal = 2698443 / 2000, contributions = 0,
        liquidity_net = 50, withdrawals = 2698443 / 40000,
        fees = 2698443 / 200000, taxes = 3698443 / 200000,
        growth = 259955199 / 2000000,
        end_balance_nominal = 2859507189 / 2000000, cpi_index = 103 / 100,
        end_balance_real = 2859507189 / 2060000\<rparr>]"

definition example_metrics :: Metrics where
  "example_metrics =
     \<lparr>terminal_nominal = 2859507189 / 2000000, terminal_real = 2859507189 / 2060000,
      first_shortfall_age = None, Metrics.probability_no_shortfall = None,
      Metrics.median_terminal = None, Metrics.p10_terminal = None,
      Metrics.p90_terminal = None\<rparr>"

text \<open>
  \<open>example_retiree\<close> is retired, withdraws a fixed real amount once a year, and has
  inflation switched off (with the inflation rate left at 10 percent); its returns have
  standard deviation 0.
\<close>

definition example_retiree :: Scenario where
  "example_retiree = \<lparr> name = ''retiree'', current_age = 65, retirement_age = 65, end_age = 66,
     current_balance = 1000, contrib_amount = 0, contrib_cadence = ''Annual'',
     nominal_return_pct = 10, return_stdev_pct = 0, inflation_pct = 10, fee_pct = 0,
     withdrawal_method = ''Fixed real amount'', withdrawal_pct = 4,
     withdrawal_real_amount = 100, withdrawal_frequency = ''Annual'',
     liquidity_events = [], enable_mc = True, mc_runs = 1000, enable_taxes = False,
     effective_tax_rate_pct = 0, inflation_enabled = False \<rparr>"

text \<open>
  \<open>example_one_year\<close> has a single simulated age, at retirement, with a balance of
  100 and no return, fee or tax: the one row ends at 100 plus the net liquidity minus
  the withdrawal, and the withdrawal under rate \<open>r\<close> is \<open>r\<close>.
\<close>

definition example_one_year :: Scenario where
  "example_one_year = \<lparr> name = ''one year'', current_age = 65, retirement_age = 65, end_age = 65,
     current_balance = 100, contrib_amount = 0, contrib_cadence = ''Annual'',
     nominal_return_pct = 0, return_stdev_pct = 0, inflation_pct = 0, fee_pct = 0,
     withdrawal_method = ''Fixed % of prior-year end balance'', withdrawal_pct = 4,
     withdrawal_real_amount = 0, withdrawal_frequency = ''Annual'',
     liquidity_events = [], enable_mc = False, mc_runs = 1000, enable_taxes = False,
     effective_tax_rate_pct = 0, inflation_enabled = True \<rparr>"

definition care_cost :: LiquidityEvent where
  "care_cost = \<lparr> type = ''Debit'', label = ''Care'', start_age = 65,
     LiquidityEvent.end_age = 65, amount = - 93, recurrence = ''One-time'',
     enabled = True, taxable = False, tax_rate = 0 \<rparr>"



section \<open>Properties of \<^verbatim>\<open>apply_liquidity_events\<close>\<close>

lemma event_body_eq:
  "event_body a e (n, ls, t) =
     (n + spec_event_net a e,
      ls @ (if spec_event_applies a e then [label e] else []),
      t + spec_event_tax a e)"
  by (simp add: spec_event_applies_def spec_annual_amount_def spec_event_net_def
        spec_event_tax_def Let_def)

lemma events_loop_eq:
  "events_loop a es (n, ls, t) =
     (n + (\<Sum>e\<leftarrow>es. spec_event_net a e),
      ls @ map label (filter (spec_event_applies a) es),
      t + (\<Sum>e\<leftarrow>es. spec_event_tax a e))"
proof (induction es arbitrary: n ls t)
  case Nil
  show ?case by simp
next
  case (Cons e es)
  show ?case
    by (simp only: events_loop.simps event_body_eq Cons.IH) (simp add: add.assoc)
qed

lemma apply_liquidity_events_sums:
  "apply_liquidity_events a es =
     ((\<Sum>e\<leftarrow>es. spec_event_net a e),
      map label (filter (spec_event_applies a) es),
      (\<Sum>e\<leftarrow>es. spec_event_tax a e))"
  by (simp add: apply_liquidity_events_def events_loop_eq)


text \<open>
  C5. For every age and event list the three outputs of \<open>apply_liquidity_events\<close> are
  the sum of the per-event net amounts, the labels of the events that apply (in list
  order) and the sum of the per-event taxes, where an event counts only if it is
  enabled, the age is within \<open>start_age..end_age\<close> and, when one-time, equals
  \<open>start_age\<close>; a monthly amount counts twelve times; the tax of an event is its
  annualized amount times \<open>tax_rate / 100\<close> when it is taxable with a strictly positive
  annualized amount and zero otherwise. A disabled event adds nothing to any output.
\<close>

theorem apply_liquidity_events_per_event:
  "apply_liquidity_events a events =
     ((\<Sum>e\<leftarrow>events. spec_event_net a e),
      map label (filter (spec_event_applies a) events),
      (\<Sum>e\<leftarrow>events. spec_event_tax a e))
   \<and> (\<forall>e. \<not> enabled e \<longrightarrow>
          spec_event_net a e = 0 \<and> spec_event_tax a e = 0 \<and> \<not> spec_event_applies a e)"
  by (simp add: apply_liquidity_events_sums spec_event_net_def spec_event_tax_def
        spec_event_applies_def)

theorem apply_liquidity_events_per_event_witness:
  "apply_liquidity_events 66 [house_sale, rent, disabled_gift, pension] =
     (- 150, [''House sale'', ''Rent'', ''Pension''], 205)
   \<and> apply_liquidity_events 67 [house_sale, rent, disabled_gift, pension] =
     (- 1150, [''Rent'', ''Pension''], 5)
   \<and> \<not> enabled disabled_gift \<and> spec_event_net 66 disabled_gift = 0"
  using apply_liquidity_events_per_event [of 66 "[house_sale, rent, disabled_gift, pension]"]
    apply_liquidity_events_per_event [of 67 "[house_sale, rent, disabled_gift, pension]"]
  by (simp add: spec_event_net_def spec_event_tax_def spec_event_applies_def
        spec_annual_amount_def house_sale_def rent_def disabled_gift_def pension_def)

subsection \<open>The float sums\<close>













section \<open>Properties of \<^verbatim>\<open>build_timeline\<close>\<close>

subsection \<open>One year\<close>

lemma timeline_year_Inr:
  assumes "timeline_year sc ev a (b, c, p, f) = Inr (row, vars')"
  shows "age row = a"
    and "start_balance_nominal row = b"
    and "contributions row = year_contributions sc a"
    and "liquidity_net row = fst (apply_liquidity_events a ev)"
    and "withdrawals row = timeline_withdrawals sc a p c"
    and "fees row = b * (fee_pct sc / 100)"
    and "taxes row = year_taxes sc (snd (snd (apply_liquidity_events a ev))) (withdrawals row)"
    and "growth row = (start_balance_nominal row + contributions row + liquidity_net row
            - withdrawals row - fees row - taxes row) * (nominal_return_pct sc / 100)"
    and "end_balance_nominal row = (start_balance_nominal row + contributions row
            + liquidity_net row - withdrawals row - fees row - taxes row) + growth row"
    and "cpi_index row = (if inflation_enabled sc \<and> a = current_age sc then 1 else c)"
    and "end_balance_real row = (if inflation_enabled sc
            then end_balance_nominal row / cpi_index row else end_balance_nominal row)"
    and "inflation_enabled sc \<longrightarrow> cpi_index row \<noteq> 0"
    and "vars' = (end_balance_nominal row,
            (if inflation_enabled sc \<and> a \<noteq> current_age sc
             then cpi_index row * (1 + inflation_pct sc / 100) else cpi_index row),
            end_balance_nominal row,
            (if f = None \<and> end_balance_nominal row < 0 then Some a else f))"
  using assms
  by (auto simp: timeline_year_def Let_def split: prod.splits if_splits)

lemma timeline_year_ok:
  assumes "\<not> inflation_enabled sc \<or> (if a = current_age sc then 1 else c) \<noteq> 0"
  shows "\<exists>row vars'. timeline_year sc ev a (b, c, p, f) = Inr (row, vars')"
  using assms
  by (auto simp: timeline_year_def Let_def split: prod.splits if_splits)

lemma timeline_year_frequency:
  assumes "withdrawal_method sc = ''Fixed % of prior-year end balance''"
  shows "timeline_year (sc\<lparr>withdrawal_frequency := fr\<rparr>) ev a vars = timeline_year sc ev a vars"
proof -
  have w: "timeline_withdrawals (sc\<lparr>withdrawal_frequency := fr\<rparr>) a p c
             = timeline_withdrawals sc a p c" for p c
    using assms by (simp add: timeline_withdrawals_def)
  have c: "year_contributions (sc\<lparr>withdrawal_frequency := fr\<rparr>) a = year_contributions sc a"
    by (simp add: year_contributions_def)
  have t: "year_taxes (sc\<lparr>withdrawal_frequency := fr\<rparr>) x y = year_taxes sc x y" for x y
    by (simp add: year_taxes_def)
  obtain b c0 p f where v: "vars = (b, c0, p, f)" by (cases vars) auto
  obtain n ls tx where e: "apply_liquidity_events a ev = (n, ls, tx)"
    by (cases "apply_liquidity_events a ev") auto
  show ?thesis
    unfolding timeline_year_def v e by (simp add: w c t cong: if_cong)
qed

subsection \<open>The loop\<close>

lemma timeline_loop_Cons_Inr:
  assumes "timeline_loop sc ev (a # ages) vars = Inr (rows, fs)"
  shows "\<exists>row vars' rows'.
    timeline_year sc ev a vars = Inr (row, vars') \<and>
    timeline_loop sc ev ages vars' = Inr (rows', fs) \<and>
    rows = row # rows'"
  using assms by (auto split: sum.splits prod.splits)

lemma timeline_loop_ages:
  "timeline_loop sc ev ages vars = Inr (rows, fs) \<Longrightarrow> map age rows = ages"
proof (induction ages arbitrary: vars rows)
  case Nil
  then show ?case by simp
next
  case (Cons a ages)
  obtain b c p f where v: "vars = (b, c, p, f)" by (cases vars) auto
  from timeline_loop_Cons_Inr [OF Cons.prems(1)] v obtain row vars' rows' where
    y: "timeline_year sc ev a (b, c, p, f) = Inr (row, vars')" and
    l: "timeline_loop sc ev ages vars' = Inr (rows', fs)" and
    r: "rows = row # rows'"
    by blast
  from Cons.IH [OF l] timeline_year_Inr(1) [OF y] r show ?case by simp
qed

lemma timeline_year_row_local:
  assumes "timeline_year sc ev a (b, c, p, f) = Inr (r, vars')"
  shows "fees r = start_balance_nominal r * (fee_pct sc / 100)
   \<and> growth r = (start_balance_nominal r + contributions r + liquidity_net r
            - withdrawals r - fees r - taxes r) * (nominal_return_pct sc / 100)
   \<and> end_balance_nominal r = (start_balance_nominal r + contributions r
            + liquidity_net r - withdrawals r - fees r - taxes r) + growth r
   \<and> end_balance_real r = (if inflation_enabled sc
            then end_balance_nominal r / cpi_index r else end_balance_nominal r)
   \<and> (inflation_enabled sc \<longrightarrow> cpi_index r \<noteq> 0)
   \<and> (age r < retirement_age sc \<longrightarrow> withdrawals r = 0)"
  using timeline_year_Inr [OF assms]
  by (simp add: timeline_withdrawals_def)

lemma timeline_loop_row_local:
  "timeline_loop sc ev ages vars = Inr (rows, fs) \<Longrightarrow> r \<in> set rows \<Longrightarrow>
     fees r = start_balance_nominal r * (fee_pct sc / 100)
   \<and> growth r = (start_balance_nominal r + contributions r + liquidity_net r
            - withdrawals r - fees r - taxes r) * (nominal_return_pct sc / 100)
   \<and> end_balance_nominal r = (start_balance_nominal r + contributions r
            + liquidity_net r - withdrawals r - fees r - taxes r) + growth r
   \<and> end_balance_real r = (if inflation_enabled sc
            then end_balance_nominal r / cpi_index r else end_balance_nominal r)
   \<and> (inflation_enabled sc \<longrightarrow> cpi_index r \<noteq> 0)
   \<and> (age r < retirement_age sc \<longrightarrow> withdrawals r = 0)"
proof (induction ages arbitrary: vars rows)
  case Nil
  then show ?case by simp
next
  case (Cons a ages)
  obtain b c p f where v: "vars = (b, c, p, f)" by (cases vars) auto
  from timeline_loop_Cons_Inr [OF Cons.prems(1)] v obtain row vars' rows' where
    y: "timeline_year sc ev a (b, c, p, f) = Inr (row, vars')" and
    l: "timeline_loop sc ev ages vars' = Inr (rows', fs)" and
    r: "rows = row # rows'"
    by blast
  from Cons.prems(2) r have "r = row \<or> r \<in> set rows'" by auto
  then show ?case
  proof
    assume "r = row"
    then show ?thesis using timeline_year_row_local [OF y] by simp
  next
    assume "r \<in> set rows'"
    then show ?thesis by (rule Cons.IH [OF l])
  qed
qed

text \<open>
  The balance is carried from row to row: \<^verbatim>\<open>balance_nominal\<close> and
  \<^verbatim>\<open>prior_year_end_balance\<close> are equal at the top of every pass.
\<close>

lemma timeline_loop_chain:
  "timeline_loop sc ev ages (b, c, b, f) = Inr (rows, fs) \<Longrightarrow> i < length rows \<Longrightarrow>
     start_balance_nominal (rows ! i) = (if i = 0 then b else end_balance_nominal (rows ! (i - 1)))
   \<and> (withdrawal_method sc = ''Fixed % of prior-year end balance'' \<longrightarrow>
        withdrawals (rows ! i) =
          (if age (rows ! i) \<ge> retirement_age sc
           then (if i = 0 then b else end_balance_nominal (rows ! (i - 1))) * (withdrawal_pct sc / 100)
           else 0))"
proof (induction ages arbitrary: b c f rows i)
  case Nil
  then show ?case by simp
next
  case (Cons a ages)
  from timeline_loop_Cons_Inr [OF Cons.prems(1)] obtain row vars' rows' where
    y: "timeline_year sc ev a (b, c, b, f) = Inr (row, vars')" and
    l: "timeline_loop sc ev ages vars' = Inr (rows', fs)" and
    r: "rows = row # rows'"
    by blast
  note yr = timeline_year_Inr [OF y]
  obtain c' f' where v': "vars' = (end_balance_nominal row, c', end_balance_nominal row, f')"
    using yr(13) by simp
  show ?case
  proof (cases i)
    case 0
    then show ?thesis using r yr(1,2,5) by (simp add: timeline_withdrawals_def)
  next
    case (Suc j)
    with Cons.prems(2) r have j: "j < length rows'" by simp
    from Cons.IH [OF l [unfolded v'] j] Suc r show ?thesis
      by (cases j) simp_all
  qed
qed

lemma timeline_loop_ok:
  assumes "\<not> inflation_enabled sc \<or> (c \<noteq> 0 \<and> 1 + inflation_pct sc / 100 \<noteq> 0)"
  shows "\<exists>rows fs. timeline_loop sc ev ages (b, c, p, f) = Inr (rows, fs)"
  using assms
proof (induction ages arbitrary: b c p f)
  case Nil
  then show ?case by simp
next
  case (Cons a ages)
  from Cons.prems have "\<not> inflation_enabled sc \<or> (if a = current_age sc then 1 else c) \<noteq> 0"
    by auto
  from timeline_year_ok [OF this] obtain row vars' where
    y: "timeline_year sc ev a (b, c, p, f) = Inr (row, vars')" by blast
  note yr = timeline_year_Inr [OF y]
  obtain b' c' f' where v': "vars' = (b', c', b', f')"
    and c': "c' = (if inflation_enabled sc \<and> a \<noteq> current_age sc
             then cpi_index row * (1 + inflation_pct sc / 100) else cpi_index row)"
    using yr(13) by simp
  have "\<not> inflation_enabled sc \<or> (c' \<noteq> 0 \<and> 1 + inflation_pct sc / 100 \<noteq> 0)"
    using Cons.prems c' yr(10) by auto
  from Cons.IH [OF this] obtain rows fs where
    "timeline_loop sc ev ages (b', c', b', f') = Inr (rows, fs)" by blast
  with y v' show ?case by simp
qed

lemma timeline_loop_frequency:
  assumes "withdrawal_method sc = ''Fixed % of prior-year end balance''"
  shows "timeline_loop (sc\<lparr>withdrawal_frequency := fr\<rparr>) ev ages vars = timeline_loop sc ev ages vars"
  by (induction ages arbitrary: vars)
     (simp_all add: timeline_year_frequency [OF assms] split: sum.splits prod.splits)

lemma timeline_loop_cpi_later:
  "timeline_loop sc ev ages (b, c, p, f) = Inr (rows, fs) \<Longrightarrow>
   \<forall>a \<in> set ages. a \<noteq> current_age sc \<Longrightarrow> i < length rows \<Longrightarrow>
   cpi_index (rows ! i) =
     (if inflation_enabled sc then c * (1 + inflation_pct sc / 100) ^ i else c)"
proof (induction ages arbitrary: b c p f rows i)
  case Nil
  then show ?case by simp
next
  case (Cons a ages)
  from timeline_loop_Cons_Inr [OF Cons.prems(1)] obtain row vars' rows' where
    y: "timeline_year sc ev a (b, c, p, f) = Inr (row, vars')" and
    l: "timeline_loop sc ev ages vars' = Inr (rows', fs)" and
    r: "rows = row # rows'"
    by blast
  note yr = timeline_year_Inr [OF y]
  from Cons.prems(2) have a: "a \<noteq> current_age sc" and rest: "\<forall>a \<in> set ages. a \<noteq> current_age sc"
    by auto
  from yr(10) a have c0: "cpi_index row = c" by simp
  obtain b' f' where v': "vars' = (b', (if inflation_enabled sc
             then c * (1 + inflation_pct sc / 100) else c), b', f')"
    using yr(13) a c0 by simp
  show ?case
  proof (cases i)
    case 0
    then show ?thesis using r c0 by simp
  next
    case (Suc j)
    with Cons.prems(3) r have j: "j < length rows'" by simp
    from Cons.IH [OF l [unfolded v'] rest j] Suc r show ?thesis
      by simp
  qed
qed

subsection \<open>The whole function\<close>

lemma build_timeline_Inr:
  assumes "build_timeline sc ev = Inr (rows, m)"
  shows "\<exists>fs. timeline_loop sc ev [current_age sc..end_age sc]
            (current_balance sc, 1, current_balance sc, None) = Inr (rows, fs)"
    and "rows \<noteq> []"
    and "terminal_nominal m = end_balance_nominal (last rows)"
  using assms
  by (auto simp: build_timeline_def split: sum.splits prod.splits if_splits)

lemma build_timeline_of_loop:
  assumes "timeline_loop sc ev [current_age sc..end_age sc]
            (current_balance sc, 1, current_balance sc, None) = Inr (rows, fs)"
    and "current_age sc \<le> end_age sc"
  shows "\<exists>m. build_timeline sc ev = Inr (rows, m)"
proof -
  from timeline_loop_ages [OF assms(1)] assms(2) have "rows \<noteq> []"
    by (auto simp: upto_rec1)
  with assms(1) show ?thesis by (simp add: build_timeline_def)
qed

text \<open>
  With \<open>inflation_pct \<ge> 0\<close> the index never reaches zero, and on a horizon that is not
  empty \<open>build_timeline\<close> returns.
\<close>

lemma build_timeline_ok:
  assumes "current_age sc \<le> end_age sc" and "0 \<le> inflation_pct sc"
  shows "\<exists>rows m. build_timeline sc ev = Inr (rows, m)"
proof -
  from assms(2) have "0 < 1 + inflation_pct sc / 100" by (simp add: add_pos_nonneg)
  then have "\<not> inflation_enabled sc \<or> ((1::real) \<noteq> 0 \<and> 1 + inflation_pct sc / 100 \<noteq> 0)"
    by simp
  then have "\<exists>rows fs. timeline_loop sc ev [current_age sc..end_age sc]
            (current_balance sc, 1, current_balance sc, None) = Inr (rows, fs)"
    by (rule timeline_loop_ok)
  then show ?thesis using build_timeline_of_loop [OF _ assms(1)] by blast
qed

lemma build_timeline_empty_horizon:
  assumes "end_age sc < current_age sc"
  shows "build_timeline sc ev = Inl IndexError"
  using assms by (simp add: build_timeline_def)

lemma build_timeline_ages:
  assumes "build_timeline sc ev = Inr (rows, m)"
  shows "map age rows = [current_age sc..end_age sc]"
  using build_timeline_Inr(1) [OF assms] timeline_loop_ages by blast

lemma build_timeline_first_cpi:
  assumes "build_timeline sc ev = Inr (rows, m)"
  shows "cpi_index (hd rows) = 1"
proof -
  from build_timeline_Inr [OF assms] obtain fs where
    l: "timeline_loop sc ev [current_age sc..end_age sc]
            (current_balance sc, 1, current_balance sc, None) = Inr (rows, fs)"
    and ne: "rows \<noteq> []" by blast
  from timeline_loop_ages [OF l] ne have le: "current_age sc \<le> end_age sc"
    by (cases "current_age sc \<le> end_age sc") auto
  then have u: "[current_age sc..end_age sc] = current_age sc # [current_age sc + 1..end_age sc]"
    by (rule upto_rec1)
  from timeline_loop_Cons_Inr [OF l [unfolded u]] obtain row vars' rows' where
    y: "timeline_year sc ev (current_age sc) (current_balance sc, 1, current_balance sc, None)
          = Inr (row, vars')" and r: "rows = row # rows'" by blast
  from timeline_year_Inr(10) [OF y] r show ?thesis by simp
qed

lemma build_timeline_frequency:
  assumes "withdrawal_method sc = ''Fixed % of prior-year end balance''"
  shows "build_timeline (sc\<lparr>withdrawal_frequency := fr\<rparr>) ev = build_timeline sc ev"
  by (simp add: build_timeline_def timeline_loop_frequency [OF assms])

text \<open>
  The price index that \<open>build_timeline\<close> records: 1 in the first two rows, and from
  the third row on the previous row's index times \<open>1 + inflation_pct / 100\<close> (when
  inflation is enabled; 1 throughout when it is not).
\<close>

lemma build_timeline_cpi_index:
  assumes "build_timeline sc ev = Inr (rows, m)" and "i < length rows"
  shows "cpi_index (rows ! i) =
     (if inflation_enabled sc then (1 + inflation_pct sc / 100) ^ (i - 1) else 1)"
proof -
  from build_timeline_Inr [OF assms(1)] obtain fs where
    l: "timeline_loop sc ev [current_age sc..end_age sc]
            (current_balance sc, 1, current_balance sc, None) = Inr (rows, fs)"
    and ne: "rows \<noteq> []" by blast
  from timeline_loop_ages [OF l] ne have le: "current_age sc \<le> end_age sc"
    by (cases "current_age sc \<le> end_age sc") auto
  then have u: "[current_age sc..end_age sc] = current_age sc # [current_age sc + 1..end_age sc]"
    by (rule upto_rec1)
  from timeline_loop_Cons_Inr [OF l [unfolded u]] obtain row vars' rows' where
    y: "timeline_year sc ev (current_age sc) (current_balance sc, 1, current_balance sc, None)
          = Inr (row, vars')" and
    l': "timeline_loop sc ev [current_age sc + 1..end_age sc] vars' = Inr (rows', fs)" and
    r: "rows = row # rows'" by blast
  note yr = timeline_year_Inr [OF y]
  have c0: "cpi_index row = 1" using yr(10) by simp
  obtain b' f' where v': "vars' = (b', 1, b', f')" using yr(13) c0 by simp
  show ?thesis
  proof (cases i)
    case 0
    then show ?thesis using r c0 by simp
  next
    case (Suc j)
    with assms(2) r have j: "j < length rows'" by simp
    have "\<forall>a \<in> set [current_age sc + 1..end_age sc]. a \<noteq> current_age sc" by simp
    from timeline_loop_cpi_later [OF l' [unfolded v'] this j] Suc r show ?thesis by simp
  qed
qed

subsection \<open>Evaluation on the concrete scenario\<close>

lemmas timeline_eval = build_timeline_def timeline_year_def apply_liquidity_events_def
  year_contributions_def timeline_withdrawals_def year_taxes_def Let_def column_def

lemma example_build:
  "build_timeline example_saver [pension] = Inr (example_rows, example_metrics)"
  by (simp add: timeline_eval example_saver_def pension_def example_rows_def
        example_metrics_def)


subsection \<open>Claims about the deterministic timeline\<close>

text \<open>
  C4. For every scenario with \<open>current_age \<le> end_age\<close> (of valid configuration: the
  inflation rate is not negative), \<open>build_timeline\<close> returns exactly
  \<open>end_age - current_age + 1\<close> rows, whose ages are \<open>current_age\<close>,
  \<open>current_age + 1\<close>, ... in this order; the price index of the first row is 1; with
  \<open>current_age = end_age\<close> there is exactly one row.
\<close>

theorem build_timeline_rows:
  assumes "current_age sc \<le> end_age sc" and "0 \<le> inflation_pct sc"
  shows "\<exists>rows m. build_timeline sc ev = Inr (rows, m)
     \<and> length rows = nat (end_age sc - current_age sc + 1)
     \<and> map age rows = [current_age sc..end_age sc]
     \<and> (\<forall>i < length rows. age (rows ! i) = current_age sc + int i)
     \<and> cpi_index (hd rows) = 1
     \<and> (current_age sc = end_age sc \<longrightarrow> length rows = 1)"
proof -
  from build_timeline_ok [OF assms] obtain rows m where
    b: "build_timeline sc ev = Inr (rows, m)" by blast
  have ages: "map age rows = [current_age sc..end_age sc]"
    by (rule build_timeline_ages [OF b])
  then have "length rows = length [current_age sc..end_age sc]"
    by (metis length_map)
  then have len: "length rows = nat (end_age sc - current_age sc + 1)" by simp
  have nth: "age (rows ! i) = current_age sc + int i" if "i < length rows" for i
  proof -
    have "age (rows ! i) = map age rows ! i" using that by simp
    also have "\<dots> = [current_age sc..end_age sc] ! i" by (simp only: ages)
    also have "\<dots> = current_age sc + int i"
      using that len by (intro nth_upto) linarith
    finally show ?thesis .
  qed
  from b len ages nth build_timeline_first_cpi [OF b] show ?thesis by auto
qed

theorem build_timeline_rows_witness:
  "current_age example_saver \<le> end_age example_saver
   \<and> 0 \<le> inflation_pct example_saver
   \<and> column age (build_timeline example_saver [pension]) = Inr [64, 65, 66]
   \<and> current_age (example_saver\<lparr>end_age := 64\<rparr>) = end_age (example_saver\<lparr>end_age := 64\<rparr>)
   \<and> column cpi_index (build_timeline (example_saver\<lparr>end_age := 64\<rparr>) []) = Inr [1]"
proof -
  have h1: "current_age example_saver \<le> end_age example_saver"
    and h2: "0 \<le> inflation_pct example_saver"
    by (simp_all add: example_saver_def)
  from build_timeline_rows [OF h1 h2, of "[pension]"] obtain rows m where
    b: "build_timeline example_saver [pension] = Inr (rows, m)"
    and a: "map age rows = [current_age example_saver..end_age example_saver]" by blast
  have "[current_age example_saver..end_age example_saver] = [64, 65, 66]"
    by (simp add: example_saver_def upto_rec1)
  with a b have c1: "column age (build_timeline example_saver [pension]) = Inr [64, 65, 66]"
    by (simp add: column_def)
  let ?s = "example_saver\<lparr>end_age := 64\<rparr>"
  have k1: "current_age ?s = end_age ?s" by (simp add: example_saver_def)
  then have k2: "current_age ?s \<le> end_age ?s" by simp
  have k3: "0 \<le> inflation_pct ?s" by (simp add: example_saver_def)
  from build_timeline_rows [OF k2 k3, of "[]"] k1 obtain rows' m' where
    b': "build_timeline ?s [] = Inr (rows', m')"
    and l': "length rows' = 1" and c': "cpi_index (hd rows') = 1" by blast
  from l' obtain r where "rows' = [r]" by (cases rows') auto
  with b' c' have c2: "column cpi_index (build_timeline ?s []) = Inr [1]"
    by (simp add: column_def)
  from h1 h2 c1 k1 c2 show ?thesis by simp
qed

text \<open>
  C6. In every row of the deterministic timeline the start-of-year balance is the
  balance carried in (the starting balance in the first row, the previous row's nominal
  end balance afterwards); fees are that start balance times the fee rate; growth is
  (start balance + contributions + net liquidity - withdrawals - fees - taxes) times
  the nominal return rate; and the nominal end balance is that same pre-growth figure
  plus the growth.
\<close>

theorem build_timeline_row_arithmetic:
  assumes "build_timeline sc ev = Inr (rows, m)" and "i < length rows"
  shows "start_balance_nominal (rows ! i) =
           (if i = 0 then current_balance sc else end_balance_nominal (rows ! (i - 1)))
     \<and> fees (rows ! i) = start_balance_nominal (rows ! i) * (fee_pct sc / 100)
     \<and> growth (rows ! i) =
           (start_balance_nominal (rows ! i) + contributions (rows ! i) + liquidity_net (rows ! i)
              - withdrawals (rows ! i) - fees (rows ! i) - taxes (rows ! i))
           * (nominal_return_pct sc / 100)
     \<and> end_balance_nominal (rows ! i) =
           (start_balance_nominal (rows ! i) + contributions (rows ! i) + liquidity_net (rows ! i)
              - withdrawals (rows ! i) - fees (rows ! i) - taxes (rows ! i))
           + growth (rows ! i)"
proof -
  from build_timeline_Inr(1) [OF assms(1)] obtain fs where
    l: "timeline_loop sc ev [current_age sc..end_age sc]
            (current_balance sc, 1, current_balance sc, None) = Inr (rows, fs)" by blast
  have "rows ! i \<in> set rows" using assms(2) by simp
  from timeline_loop_row_local [OF l this] timeline_loop_chain [OF l assms(2)]
  show ?thesis by simp
qed

theorem build_timeline_row_arithmetic_witness:
  "build_timeline example_saver [pension] = Inr (example_rows, example_metrics)
   \<and> 1 < length example_rows
   \<and> start_balance_nominal (example_rows ! 1) = 2541 / 2
   \<and> end_balance_nominal (example_rows ! 0) = 2541 / 2
   \<and> fees (example_rows ! 1) = 2541 / 2 * (1 / 100)
   \<and> growth (example_rows ! 1) = (2541 / 2 + 0 + 50 - 2541 / 40 - 2541 / 200 - 3541 / 200) * (10 / 100)
   \<and> end_balance_nominal (example_rows ! 1) =
       (2541 / 2 + 0 + 50 - 2541 / 40 - 2541 / 200 - 3541 / 200) + 245313 / 2000"
proof -
  have l: "1 < length example_rows" by (simp add: example_rows_def)
  have f: "fee_pct example_saver = 1" "nominal_return_pct example_saver = 10"
    by (simp_all add: example_saver_def)
  have r: "contributions (example_rows ! 1) = 0" "liquidity_net (example_rows ! 1) = 50"
    "withdrawals (example_rows ! 1) = 2541 / 40" "taxes (example_rows ! 1) = 3541 / 200"
    "end_balance_nominal (example_rows ! 0) = 2541 / 2"
    by (simp_all add: example_rows_def)
  from build_timeline_row_arithmetic [OF example_build l] have
    s: "start_balance_nominal (example_rows ! 1) = end_balance_nominal (example_rows ! 0)"
    and fe: "fees (example_rows ! 1) = start_balance_nominal (example_rows ! 1) * (fee_pct example_saver / 100)"
    and g: "growth (example_rows ! 1) =
           (start_balance_nominal (example_rows ! 1) + contributions (example_rows ! 1)
              + liquidity_net (example_rows ! 1)
              - withdrawals (example_rows ! 1) - fees (example_rows ! 1) - taxes (example_rows ! 1))
           * (nominal_return_pct example_saver / 100)"
    and e: "end_balance_nominal (example_rows ! 1) =
           (start_balance_nominal (example_rows ! 1) + contributions (example_rows ! 1)
              + liquidity_net (example_rows ! 1)
              - withdrawals (example_rows ! 1) - fees (example_rows ! 1) - taxes (example_rows ! 1))
           + growth (example_rows ! 1)"
    by simp_all
  have s': "start_balance_nominal (example_rows ! 1) = 2541 / 2" using s r(5) by simp
  have fe': "fees (example_rows ! 1) = 2541 / 2 * (1 / 100)" using fe s' f by simp
  have fe'': "fees (example_rows ! 1) = 2541 / 200" using fe' by simp
  have g': "growth (example_rows ! 1) =
      (2541 / 2 + 0 + 50 - 2541 / 40 - 2541 / 200 - 3541 / 200) * (10 / 100)"
    using g by (simp only: s' r fe'' f)
  have g'': "growth (example_rows ! 1) = 245313 / 2000" using g' by simp
  have e': "end_balance_nominal (example_rows ! 1) =
       (2541 / 2 + 0 + 50 - 2541 / 40 - 2541 / 200 - 3541 / 200) + 245313 / 2000"
    using e by (simp only: s' r fe'' g'')
  from example_build l s' r(5) fe' g' e' show ?thesis by blast
qed

text \<open>
  C7. In the deterministic timeline the withdrawal is zero in every row whose age is
  below \<open>retirement_age\<close>; under the percentage-of-prior-balance method the withdrawal
  of a row at or after \<open>retirement_age\<close> is the prior year's nominal end balance (the
  starting balance for the first row) times \<open>withdrawal_pct / 100\<close>; and under that
  method the whole result is the same for every value \<open>fr\<close> of
  \<open>withdrawal_frequency\<close>, so nothing is multiplied by 12 for monthly frequency.
\<close>

theorem build_timeline_withdrawals:
  assumes "build_timeline sc ev = Inr (rows, m)" and "i < length rows"
  shows "(age (rows ! i) < retirement_age sc \<longrightarrow> withdrawals (rows ! i) = 0)
     \<and> (withdrawal_method sc = ''Fixed % of prior-year end balance''
          \<and> retirement_age sc \<le> age (rows ! i) \<longrightarrow>
        withdrawals (rows ! i) =
          (if i = 0 then current_balance sc else end_balance_nominal (rows ! (i - 1)))
          * (withdrawal_pct sc / 100))
     \<and> (withdrawal_method sc = ''Fixed % of prior-year end balance'' \<longrightarrow>
        build_timeline (sc\<lparr>withdrawal_frequency := fr\<rparr>) ev = Inr (rows, m))"
proof -
  from build_timeline_Inr(1) [OF assms(1)] obtain fs where
    l: "timeline_loop sc ev [current_age sc..end_age sc]
            (current_balance sc, 1, current_balance sc, None) = Inr (rows, fs)" by blast
  have "rows ! i \<in> set rows" using assms(2) by simp
  from timeline_loop_row_local [OF l this] timeline_loop_chain [OF l assms(2)]
    build_timeline_frequency [of sc fr ev] assms(1)
  show ?thesis by simp
qed

theorem build_timeline_withdrawals_witness:
  "build_timeline example_saver [pension] = Inr (example_rows, example_metrics)
   \<and> withdrawal_method example_saver = ''Fixed % of prior-year end balance''
   \<and> withdrawal_frequency example_saver = ''Monthly''
   \<and> age (example_rows ! 0) < retirement_age example_saver
   \<and> withdrawals (example_rows ! 0) = 0
   \<and> retirement_age example_saver \<le> age (example_rows ! 2)
   \<and> withdrawals (example_rows ! 2) = 2698443 / 2000 * (5 / 100)
   \<and> build_timeline (example_saver\<lparr>withdrawal_frequency := ''Annual''\<rparr>) [pension]
       = Inr (example_rows, example_metrics)"
proof -
  have l0: "0 < length example_rows" and l2: "2 < length example_rows"
    by (simp_all add: example_rows_def)
  have m: "withdrawal_method example_saver = ''Fixed % of prior-year end balance''"
    and fq: "withdrawal_frequency example_saver = ''Monthly''"
    and p: "withdrawal_pct example_saver = 5"
    and a0: "age (example_rows ! 0) < retirement_age example_saver"
    and a2: "retirement_age example_saver \<le> age (example_rows ! 2)"
    and e1: "end_balance_nominal (example_rows ! (2 - 1)) = 2698443 / 2000"
    by (simp_all add: example_saver_def example_rows_def)
  from build_timeline_withdrawals [OF example_build l0] a0
  have w0: "withdrawals (example_rows ! 0) = 0" by blast
  from build_timeline_withdrawals [OF example_build l2, of "''Annual''"] m a2
  have w2: "withdrawals (example_rows ! 2) =
      (if (2::nat) = 0 then current_balance example_saver
       else end_balance_nominal (example_rows ! (2 - 1))) * (withdrawal_pct example_saver / 100)"
    and fr: "build_timeline (example_saver\<lparr>withdrawal_frequency := ''Annual''\<rparr>) [pension]
       = Inr (example_rows, example_metrics)"
    by blast+
  from w2 have w2': "withdrawals (example_rows ! 2) = 2698443 / 2000 * (5 / 100)"
    by (simp only: e1 p) simp
  from example_build m fq a0 w0 a2 w2' fr show ?thesis by blast
qed

text \<open>
  C2, evaluated where it fails. The scenario has inflation enabled at 3 percent and the
  ages 64, 65, 66. The recorded price index is 1 for the first age and 1 again for the
  second, where the claim requires the first index compounded, 1.03; only the third
  row is the previous index times 1.03. (The rest of the claim holds: see
  \<open>timeline_loop_row_local\<close> for the real balance and \<open>build_timeline_cpi_index\<close>
  for the index of every row.)
\<close>

theorem build_timeline_cpi_second_year:
  "inflation_enabled example_saver
   \<and> 1 + inflation_pct example_saver / 100 = 103 / 100
   \<and> column age (build_timeline example_saver [pension]) = Inr [64, 65, 66]
   \<and> column cpi_index (build_timeline example_saver [pension]) = Inr [1, 1, 103 / 100]"
proof -
  have "inflation_enabled example_saver" "1 + inflation_pct example_saver / 100 = 103 / 100"
    by (simp_all add: example_saver_def)
  moreover have "column age (build_timeline example_saver [pension]) = Inr [64, 65, 66]"
    "column cpi_index (build_timeline example_saver [pension]) = Inr [1, 1, 103 / 100]"
    by (simp_all add: example_build column_def example_rows_def)
  ultimately show ?thesis by simp
qed


section \<open>Properties of \<^verbatim>\<open>run_monte_carlo\<close>\<close>

lemmas mc_eval = mc_trial_def mc_year_def mc_withdrawals_def np_divide_def
  apply_liquidity_events_def year_contributions_def year_taxes_def Let_def enumerate_eq_zip

text \<open>
  The median that \<open>run_monte_carlo\<close> returns is numpy's median of the terminal
  balances of the trials, each trial reading its own row of the grid.
\<close>

lemma run_monte_carlo_terminal_values:
  assumes "np_random_seed np seed = Inr g1"
    and "np_random_normal np g1 (nominal_return_pct sc / 100) (return_stdev_pct sc / 100)
           runs (end_age sc - current_age sc + 1) = (Inr returns, g2)"
    and "run_monte_carlo np g sc ev runs seed = (Inr res, g')"
  shows "median_terminal res
           = np_median np (map (\<lambda>run_idx. fst (mc_trial sc ev (returns run_idx))) [0..<nat runs])"
  using assms by (auto simp: run_monte_carlo_def Let_def comp_def)

text \<open>
  Where the two functions do agree: under the percentage method with a frequency other than
  monthly the withdrawal blocks compute the same amount, and a trial whose returns all
  equal the mean ends at the terminal nominal balance of the timeline.
\<close>

lemma mc_year_agrees:
  assumes "timeline_year sc ev a (b, c, p, f) = Inr (row, vars')"
    and "mc_withdrawals sc a p c' = timeline_withdrawals sc a p c"
  shows "\<exists>entry c'' mn'. mc_year sc ev a (nominal_return_pct sc / 100) (b, c', p, mn)
           = (entry, (end_balance_nominal row, c'', end_balance_nominal row, mn'))"
  using assms
  by (auto simp: timeline_year_def mc_year_def Let_def split: prod.splits if_splits)

lemma mc_withdrawals_pct_annual:
  assumes "withdrawal_method sc = ''Fixed % of prior-year end balance''"
    and "withdrawal_frequency sc \<noteq> ''Monthly''"
  shows "mc_withdrawals sc a p c' = timeline_withdrawals sc a p c"
  using assms by (simp add: mc_withdrawals_def timeline_withdrawals_def)

lemma mc_trial_loop_agrees:
  assumes "withdrawal_method sc = ''Fixed % of prior-year end balance''"
    and "withdrawal_frequency sc \<noteq> ''Monthly''"
  shows "timeline_loop sc ev ages (b, c, b, f) = Inr (rows, fs) \<Longrightarrow>
     fst (snd (mc_trial_loop sc ev (\<lambda>year_idx. nominal_return_pct sc / 100)
                 (enumerate k ages) (b, c', b, mn)))
       = (if rows = [] then b else end_balance_nominal (last rows))"
proof (induction ages arbitrary: b c f rows k c' mn)
  case Nil
  then show ?case by simp
next
  case (Cons a ages)
  from timeline_loop_Cons_Inr [OF Cons.prems] obtain row vars' rows' where
    y: "timeline_year sc ev a (b, c, b, f) = Inr (row, vars')" and
    l: "timeline_loop sc ev ages vars' = Inr (rows', fs)" and
    r: "rows = row # rows'"
    by blast
  note yr = timeline_year_Inr [OF y]
  obtain c1 f1 where v': "vars' = (end_balance_nominal row, c1, end_balance_nominal row, f1)"
    using yr(13) by simp
  from mc_year_agrees [OF y mc_withdrawals_pct_annual [OF assms], of c' mn]
  obtain entry c'' mn' where
    m: "mc_year sc ev a (nominal_return_pct sc / 100) (b, c', b, mn)
           = (entry, (end_balance_nominal row, c'', end_balance_nominal row, mn'))"
    by blast
  from Cons.IH [OF l [unfolded v'], of "Suc k" c'' mn'] m r show ?case
    by (auto split: prod.splits)
qed

lemma mc_trial_agrees:
  assumes "withdrawal_method sc = ''Fixed % of prior-year end balance''"
    and "withdrawal_frequency sc \<noteq> ''Monthly''"
    and "build_timeline sc ev = Inr (rows, m)"
  shows "fst (mc_trial sc ev (\<lambda>year_idx. nominal_return_pct sc / 100)) = terminal_nominal m"
proof -
  from build_timeline_Inr [OF assms(3)] obtain fs where
    l: "timeline_loop sc ev [current_age sc..end_age sc]
            (current_balance sc, 1, current_balance sc, None) = Inr (rows, fs)"
    and ne: "rows \<noteq> []" and t: "terminal_nominal m = end_balance_nominal (last rows)"
    by blast
  from mc_trial_loop_agrees [OF assms(1,2) l, of 0 1 "current_balance sc"] ne t
  show ?thesis
    by (auto simp: mc_trial_def split: prod.splits)
qed

text \<open>
  C9. The result of \<open>run_monte_carlo\<close> does not depend on the state \<open>g\<close> in which it
  finds numpy's global generator: the function seeds the generator first and draws the
  whole grid of returns in one call before the trials, so two runs with the same
  scenario, events, trial count and seed return the same probability, the same
  terminal percentiles and the same percentile paths (or raise the same error).
\<close>

theorem run_monte_carlo_seed_determines_result:
  "fst (run_monte_carlo np g scenario events runs seed)
     = fst (run_monte_carlo np g' scenario events runs seed)"
  by (simp add: run_monte_carlo_def Let_def split: sum.splits prod.splits)

text \<open>
  C1, evaluated where it fails. Every drawn return is the mean (the standard deviation
  is 0). For \<open>example_retiree\<close> (fixed real amount, inflation switched off) the
  timeline withdraws 100 in both years and ends at 979, while every trial multiplies
  the amount by its own price index, withdraws 110 in the second year and ends at 968;
  so the list of terminal values of three trials is 968 three times. For
  \<open>example_saver\<close> (percentage method, monthly frequency) the timeline ends at
  2859507189 / 2000000 while every trial, which multiplies the withdrawal by 12, ends
  at 352542069 / 2000000.
\<close>

theorem monte_carlo_differs_from_timeline:
  "return_stdev_pct example_retiree = 0
   \<and> column end_balance_nominal (build_timeline example_retiree []) = Inr [990, 979]
   \<and> mc_trial example_retiree [] (\<lambda>year_idx. nominal_return_pct example_retiree / 100)
       = (968, 968, [Finite 990, Finite 880])
   \<and> map (\<lambda>run_idx. fst (mc_trial example_retiree []
              (\<lambda>year_idx. nominal_return_pct example_retiree / 100))) [0..<3]
       = [968, 968, 968]
   \<and> return_stdev_pct example_saver = 0
   \<and> column end_balance_nominal (build_timeline example_saver [pension])
       = Inr [2541 / 2, 2698443 / 2000, 2859507189 / 2000000]
   \<and> fst (mc_trial example_saver [pension] (\<lambda>year_idx. nominal_return_pct example_saver / 100))
       = 352542069 / 2000000"
proof -
  have t: "mc_trial example_retiree [] (\<lambda>year_idx. nominal_return_pct example_retiree / 100)
       = (968, 968, [Finite 990, Finite 880])"
    by (simp add: mc_eval example_retiree_def upto_rec1)
  have d: "column end_balance_nominal (build_timeline example_retiree []) = Inr [990, 979]"
    by (simp add: timeline_eval example_retiree_def)
  have s: "return_stdev_pct example_retiree = 0" "return_stdev_pct example_saver = 0"
    by (simp_all add: example_retiree_def example_saver_def)
  have d2: "column end_balance_nominal (build_timeline example_saver [pension])
       = Inr [2541 / 2, 2698443 / 2000, 2859507189 / 2000000]"
    by (simp add: example_build column_def example_rows_def)
  have t2: "fst (mc_trial example_saver [pension]
       (\<lambda>year_idx. nominal_return_pct example_saver / 100)) = 352542069 / 2000000"
    by (simp add: mc_eval example_saver_def pension_def upto_rec1)
  have u: "[0..<3] = [0, 1, 2]" by (simp add: upt_rec)
  from t have m: "map (\<lambda>run_idx. fst (mc_trial example_retiree []
              (\<lambda>year_idx. nominal_return_pct example_retiree / 100))) [0..<3]
       = [968, 968, 968]"
    by (simp only: u) simp
  from s d t m d2 t2 show ?thesis by blast
qed


section \<open>Properties of \<^verbatim>\<open>solve_safe_withdrawal_rate\<close>\<close>

subsection \<open>One iteration\<close>

lemma swr_loop_Suc:
  assumes "mid = (low + high) / 2"
  shows "swr_loop sc ev tol (Suc n) (low, high, best, dbg) =
     (case min_balance_at sc ev mid of
        Inl e \<Rightarrow> Inl e
      | Inr mb \<Rightarrow>
          (if ge_zero mb then
             (if high - mid < tol
              then Inr (mid, high, mid, dbg @ [(mid, mb, True)])
              else swr_loop sc ev tol n (mid, high, mid, dbg @ [(mid, mb, True)]))
           else
             (if mid - low < tol
              then Inr (low, mid, best, dbg @ [(mid, mb, False)])
              else swr_loop sc ev tol n (low, mid, best, dbg @ [(mid, mb, False)]))))"
  unfolding assms by (simp add: min_balance_at_def Let_def split: sum.splits)

declare swr_loop.simps(2) [simp del]

lemma min_balance_at_Some:
  assumes "min_balance_at sc ev r = Inr mb"
  shows "\<exists>v. mb = Some v"
proof -
  from assms obtain rows m where
    b: "build_timeline (sc\<lparr>withdrawal_pct := r\<rparr>) ev = Inr (rows, m)"
    and mb: "mb = series_min (map end_balance_nominal rows)"
    by (auto simp: min_balance_at_def column_def split: sum.splits prod.splits)
  from build_timeline_Inr(2) [OF b] obtain x xs where "rows = x # xs"
    by (cases rows) auto
  with mb show ?thesis by (simp add: series_min_def)
qed

lemma min_balance_at_solvent:
  assumes "min_balance_at sc ev r = Inr mb"
  shows "ge_zero mb \<Longrightarrow> solvent_at sc ev r" and "\<not> ge_zero mb \<Longrightarrow> insolvent_at sc ev r"
  using assms min_balance_at_Some [OF assms]
  by (auto simp: solvent_at_def insolvent_at_def ge_zero_def)

lemma min_balance_at_ok:
  assumes "current_age sc \<le> end_age sc" and "0 \<le> inflation_pct sc"
  shows "\<exists>mb. min_balance_at sc ev r = Inr mb"
proof -
  have "\<exists>rows m. build_timeline (sc\<lparr>withdrawal_pct := r\<rparr>) ev = Inr (rows, m)"
    using assms by (intro build_timeline_ok) simp_all
  then show ?thesis by (auto simp: min_balance_at_def column_def)
qed


subsection \<open>Solvency is monotone in the rate\<close>








subsection \<open>The search\<close>

text \<open>
  The invariant of the search, from any interval \<open>low < high\<close> with
  \<open>best_rate = low\<close>: the interval only shrinks, halving with every rate tested,
  \<open>best_rate\<close> stays its lower end, a lower end that moved is solvent, an upper end
  that moved is insolvent, the trace grows by one faithful entry per iteration, every
  tested rate lies strictly inside the interval the search started from, and the search
  leaves early only with an interval narrower than the tolerance.
\<close>

lemma swr_loop_invariant:
  assumes "swr_loop sc ev tol n (low, high, best, dbg) = Inr (low', high', best', dbg')"
      and "low < high" and "best = low"
  shows "low \<le> low' \<and> low' < high' \<and> high' \<le> high \<and> best' = low'
       \<and> (low' = low \<or> solvent_at sc ev low')
       \<and> (high' = high \<or> insolvent_at sc ev high')
       \<and> (\<exists>ext. dbg' = dbg @ ext \<and> length ext \<le> n
             \<and> (length ext = n \<or> high' - low' < tol)
             \<and> high' - low' = (high - low) / 2 ^ length ext
             \<and> (\<forall>e \<in> set ext. trace_entry_ok sc ev low' high' e \<and> low < fst e \<and> fst e < high)
             \<and> ((\<forall>e \<in> set ext. \<not> snd (snd e)) \<longrightarrow> low' = low))"
  using assms
proof (induction n arbitrary: low high best dbg)
  case 0
  then show ?case by simp
next
  case (Suc n)
  let ?Q = "\<lambda>ext. dbg' = dbg @ ext \<and> length ext \<le> Suc n
             \<and> (length ext = Suc n \<or> high' - low' < tol)
             \<and> high' - low' = (high - low) / 2 ^ length ext
             \<and> (\<forall>e \<in> set ext. trace_entry_ok sc ev low' high' e \<and> low < fst e \<and> fst e < high)
             \<and> ((\<forall>e \<in> set ext. \<not> snd (snd e)) \<longrightarrow> low' = low)"
  define mid where "mid = (low + high) / 2"
  note step = swr_loop_Suc [OF mid_def]
  from Suc.prems(2) have mid: "low < mid" "mid < high" by (simp_all add: mid_def)
  have half: "high - mid = (high - low) / 2" "mid - low = (high - low) / 2"
    by (simp_all add: mid_def field_simps)
  from Suc.prems(1) obtain mb where mb: "min_balance_at sc ev mid = Inr mb"
    by (auto simp: step split: sum.splits)
  note sv = min_balance_at_solvent [OF mb]
  show ?case
  proof (cases "ge_zero mb")
    case True
    let ?d = "dbg @ [(mid, mb, True)]"
    show ?thesis
    proof (cases "high - mid < tol")
      case stop: True
      from Suc.prems(1) mb True stop have
        r: "low' = mid" "high' = high" "best' = mid" "dbg' = ?d"
        by (auto simp: step)
      have "?Q [(mid, mb, True)]"
        using r stop mb True mid half by (simp add: trace_entry_ok_def)
      then have "\<exists>ext. ?Q ext" by blast
      with r mid sv(1) [OF True] show ?thesis by simp
    next
      case go: False
      from Suc.prems(1) mb True go have
        l: "swr_loop sc ev tol n (mid, high, mid, ?d) = Inr (low', high', best', dbg')"
        by (simp add: step)
      from Suc.IH [OF l mid(2) refl] obtain ext where
        ih: "mid \<le> low'" "low' < high'" "high' \<le> high" "best' = low'"
          "low' = mid \<or> solvent_at sc ev low'" "high' = high \<or> insolvent_at sc ev high'"
        and ex: "dbg' = ?d @ ext" "length ext \<le> n" "length ext = n \<or> high' - low' < tol"
          "high' - low' = (high - mid) / 2 ^ length ext"
          "\<forall>e \<in> set ext. trace_entry_ok sc ev low' high' e \<and> mid < fst e \<and> fst e < high"
        by blast
      have w: "high' - low' = (high - low) / 2 ^ length ((mid, mb, True) # ext)"
        using ex(4) half(1) by simp
      have e: "\<forall>e \<in> set ((mid, mb, True) # ext).
                 trace_entry_ok sc ev low' high' e \<and> low < fst e \<and> fst e < high"
        using ex(5) ih(1) mb True mid by (auto simp: trace_entry_ok_def)
      have "?Q ((mid, mb, True) # ext)"
        using ex(1,2,3) w e by simp
      then have "\<exists>ext. ?Q ext" by blast
      moreover have "low' = low \<or> solvent_at sc ev low'"
        using ih(5) sv(1) [OF True] by auto
      ultimately show ?thesis using ih mid by simp
    qed
  next
    case False
    let ?d = "dbg @ [(mid, mb, False)]"
    show ?thesis
    proof (cases "mid - low < tol")
      case stop: True
      from Suc.prems(1) mb False stop have
        r: "low' = low" "high' = mid" "best' = best" "dbg' = ?d"
        by (auto simp: step)
      have "?Q [(mid, mb, False)]"
        using r stop mb False mid half by (simp add: trace_entry_ok_def)
      then have "\<exists>ext. ?Q ext" by blast
      with r mid sv(2) [OF False] Suc.prems(3) show ?thesis by simp
    next
      case go: False
      from Suc.prems(1) mb False go have
        l: "swr_loop sc ev tol n (low, mid, best, ?d) = Inr (low', high', best', dbg')"
        by (simp add: step)
      from Suc.IH [OF l mid(1) Suc.prems(3)] obtain ext where
        ih: "low \<le> low'" "low' < high'" "high' \<le> mid" "best' = low'"
          "low' = low \<or> solvent_at sc ev low'" "high' = mid \<or> insolvent_at sc ev high'"
        and ex: "dbg' = ?d @ ext" "length ext \<le> n" "length ext = n \<or> high' - low' < tol"
          "high' - low' = (mid - low) / 2 ^ length ext"
          "\<forall>e \<in> set ext. trace_entry_ok sc ev low' high' e \<and> low < fst e \<and> fst e < mid"
          "(\<forall>e \<in> set ext. \<not> snd (snd e)) \<longrightarrow> low' = low"
        by blast
      have w: "high' - low' = (high - low) / 2 ^ length ((mid, mb, False) # ext)"
        using ex(4) half(2) by simp
      have e: "\<forall>e \<in> set ((mid, mb, False) # ext).
                 trace_entry_ok sc ev low' high' e \<and> low < fst e \<and> fst e < high"
        using ex(5) ih(3) mb False mid by (auto simp: trace_entry_ok_def)
      have z: "(\<forall>e \<in> set ((mid, mb, False) # ext). \<not> snd (snd e)) \<longrightarrow> low' = low"
        using ex(6) by simp
      have "?Q ((mid, mb, False) # ext)"
        using ex(1,2,3) w e z by simp
      then have "\<exists>ext. ?Q ext" by blast
      moreover have "high' = high \<or> insolvent_at sc ev high'"
        using ih(6) sv(2) [OF False] by auto
      ultimately show ?thesis using ih mid by simp
    qed
  qed
qed

lemma swr_loop_ok:
  assumes "\<And>r. \<exists>mb. min_balance_at sc ev r = Inr mb"
  shows "\<exists>vars'. swr_loop sc ev tol n (low, high, best, dbg) = Inr vars'"
proof (induction n arbitrary: low high best dbg)
  case 0
  then show ?case by simp
next
  case (Suc n)
  define mid where "mid = (low + high) / 2"
  from assms obtain mb where mb: "min_balance_at sc ev mid = Inr mb" by blast
  show ?case
    using Suc.IH by (simp add: swr_loop_Suc [OF mid_def] mb)
qed

text \<open>The search from the interval 0..20 that the solver starts with.\<close>

lemma swr_search_result:
  assumes "current_age sc \<le> end_age sc" and "0 \<le> inflation_pct sc"
  shows "\<exists>r high trace.
       swr_loop sc ev tol n (0, 20, 0, []) = Inr (r, high, r, trace)
     \<and> 0 \<le> r \<and> r < high \<and> high \<le> 20
     \<and> (r = 0 \<or> solvent_at sc ev r)
     \<and> (high = 20 \<or> insolvent_at sc ev high)
     \<and> length trace \<le> n
     \<and> (length trace = n \<or> high - r < tol)
     \<and> high - r = 20 / 2 ^ length trace
     \<and> (\<forall>e \<in> set trace. trace_entry_ok sc ev r high e \<and> 0 < fst e \<and> fst e < 20)
     \<and> ((\<forall>e \<in> set trace. \<not> snd (snd e)) \<longrightarrow> r = 0)"
proof -
  have "\<exists>vars'. swr_loop sc ev tol n (0, 20, 0, []) = Inr vars'"
    by (rule swr_loop_ok) (rule min_balance_at_ok [OF assms])
  then obtain low' high' best' dbg' where
    l: "swr_loop sc ev tol n (0, 20, 0, []) = Inr (low', high', best', dbg')"
    by (metis prod_cases4)
  have "(0::real) < 20" by simp
  from swr_loop_invariant [OF l this refl] l show ?thesis by auto
qed


subsection \<open>Claims about the solver\<close>

lemma min_balance_one_year_care:
  "min_balance_at example_one_year [care_cost] r = Inr (Some (7 - r))"
  by (simp add: min_balance_at_def timeline_eval series_min_def example_one_year_def
        care_cost_def)



lemma solver_one_year_care:
  "solver_rate (solve_safe_withdrawal_rate \<lparr>swr_debug = None\<rparr> example_one_year [care_cost]
       (1 / 100) 50) = Inr (Some (895 / 128))"
  by (simp add: solver_rate_def solve_safe_withdrawal_rate_def eval_nat_numeral
       swr_loop_Suc [OF refl] min_balance_one_year_care ge_zero_def)
     (simp add: example_one_year_def)





text \<open>
  C8. When the scenario's withdrawal method is not the percentage method the solver
  returns \<^verbatim>\<open>None\<close> and leaves the session state as it was: it runs no iteration,
  builds no timeline and stores no trace. When the method is the percentage method it
  never returns \<^verbatim>\<open>None\<close>; and for every such scenario of valid configuration
  (\<open>current_age \<le> end_age\<close>, no negative inflation rate) it returns a rate.
\<close>

theorem solver_none_iff_other_method:
  "(withdrawal_method sc \<noteq> ''Fixed % of prior-year end balance'' \<longrightarrow>
      solve_safe_withdrawal_rate ss sc ev tol max_iterations = Inr (None, ss))
   \<and> (withdrawal_method sc = ''Fixed % of prior-year end balance'' \<longrightarrow>
      solver_rate (solve_safe_withdrawal_rate ss sc ev tol max_iterations) \<noteq> Inr None)
   \<and> (withdrawal_method sc = ''Fixed % of prior-year end balance''
      \<and> current_age sc \<le> end_age sc \<and> 0 \<le> inflation_pct sc
      \<longrightarrow> (\<exists>r trace. solve_safe_withdrawal_rate ss sc ev tol max_iterations
              = Inr (Some r, ss\<lparr>swr_debug := Some trace\<rparr>)))"
proof (intro conjI impI)
  assume "withdrawal_method sc \<noteq> ''Fixed % of prior-year end balance''"
  then show "solve_safe_withdrawal_rate ss sc ev tol max_iterations = Inr (None, ss)"
    by (simp add: solve_safe_withdrawal_rate_def)
next
  assume "withdrawal_method sc = ''Fixed % of prior-year end balance''"
  then show "solver_rate (solve_safe_withdrawal_rate ss sc ev tol max_iterations) \<noteq> Inr None"
    by (simp add: solve_safe_withdrawal_rate_def solver_rate_def split: sum.splits prod.splits)
next
  assume a: "withdrawal_method sc = ''Fixed % of prior-year end balance''
      \<and> current_age sc \<le> end_age sc \<and> 0 \<le> inflation_pct sc"
  then have h: "current_age sc \<le> end_age sc" "0 \<le> inflation_pct sc"
    by simp_all
  from swr_search_result [OF h, of ev tol "nat max_iterations"] obtain r high trace where
    "swr_loop sc ev tol (nat max_iterations) (0, 20, 0, []) = Inr (r, high, r, trace)"
    by blast
  with a have "solve_safe_withdrawal_rate ss sc ev tol max_iterations
              = Inr (Some r, ss\<lparr>swr_debug := Some trace\<rparr>)"
    by (simp add: solve_safe_withdrawal_rate_def)
  then show "\<exists>r trace. solve_safe_withdrawal_rate ss sc ev tol max_iterations
              = Inr (Some r, ss\<lparr>swr_debug := Some trace\<rparr>)"
    by blast
qed

theorem solver_none_iff_other_method_witness:
  "withdrawal_method example_retiree \<noteq> ''Fixed % of prior-year end balance''
   \<and> solve_safe_withdrawal_rate \<lparr>swr_debug = None\<rparr> example_retiree [] (1 / 100) 50
       = Inr (None, \<lparr>swr_debug = None\<rparr>)
   \<and> withdrawal_method example_one_year = ''Fixed % of prior-year end balance''
   \<and> current_age example_one_year \<le> end_age example_one_year
   \<and> 0 \<le> inflation_pct example_one_year
   \<and> solver_rate (solve_safe_withdrawal_rate \<lparr>swr_debug = None\<rparr> example_one_year [care_cost]
       (1 / 100) 50) \<noteq> Inr None
   \<and> solver_rate (solve_safe_withdrawal_rate \<lparr>swr_debug = None\<rparr> example_one_year [care_cost]
       (1 / 100) 50) = Inr (Some (895 / 128))"
proof -
  have n: "withdrawal_method example_retiree \<noteq> ''Fixed % of prior-year end balance''"
    by (simp add: example_retiree_def)
  have h1: "withdrawal_method example_one_year = ''Fixed % of prior-year end balance''"
    and h2: "current_age example_one_year \<le> end_age example_one_year"
    and h3: "0 \<le> inflation_pct example_one_year"
    by (simp_all add: example_one_year_def)
  note t1 = solver_none_iff_other_method
         [of example_retiree "\<lparr>swr_debug = None\<rparr>" "[]" "1 / 100" 50]
  note t2 = solver_none_iff_other_method
         [of example_one_year "\<lparr>swr_debug = None\<rparr>" "[care_cost]" "1 / 100" 50]
  from t1 n
  have r1: "solve_safe_withdrawal_rate \<lparr>swr_debug = None\<rparr> example_retiree [] (1 / 100) 50
       = Inr (None, \<lparr>swr_debug = None\<rparr>)" by blast
  from t2 h1
  have r2: "solver_rate (solve_safe_withdrawal_rate \<lparr>swr_debug = None\<rparr> example_one_year
       [care_cost] (1 / 100) 50) \<noteq> Inr None" by blast
  from t2 h1 h2 h3 obtain r trace where
    res: "solve_safe_withdrawal_rate \<lparr>swr_debug = None\<rparr> example_one_year [care_cost] (1 / 100) 50
         = Inr (Some r, \<lparr>swr_debug = None\<rparr>\<lparr>swr_debug := Some trace\<rparr>)" by blast
  from res have r3: "solver_rate (solve_safe_withdrawal_rate \<lparr>swr_debug = None\<rparr>
       example_one_year [care_cost] (1 / 100) 50) = Inr (Some r)"
    by (simp add: solver_rate_def)
  with solver_one_year_care have "r = 895 / 128" by simp
  with r3 have r3: "solver_rate (solve_safe_withdrawal_rate \<lparr>swr_debug = None\<rparr>
       example_one_year [care_cost] (1 / 100) 50) = Inr (Some (895 / 128))" by simp
  from n r1 h1 h2 h3 r2 r3 show ?thesis by blast
qed


end
